theory Spec2Isabelle
  imports Complex_Main
begin

section \<open>Values and the browser platform\<close>

text \<open>
  The client (\<^verbatim>\<open>frontend/src/lib/api.ts\<close> and the screens that call it) works on
  values that come out of \<^verbatim>\<open>JSON.parse\<close>. A number is the rational it denotes (a
  literal beyond the range of a double, which parses to an infinity, is left out), an
  object is the list of its own properties, each key once. A string is the list of
  its code units.
\<close>

datatype json =
    JNull
  | JBool bool
  | JNumber rat
  | JString string
  | JArray "json list"
  | JObject "(string \<times> json) list"

text \<open>
  \<^verbatim>\<open>v?.k\<close> for a property name \<open>k\<close> that no built-in prototype defines (\<^verbatim>\<open>exp\<close>,
  \<^verbatim>\<open>adm\<close>, \<^verbatim>\<open>detail\<close>): \<open>None\<close> is \<^verbatim>\<open>undefined\<close>. Only an object can hold
  such a property; on \<^verbatim>\<open>null\<close> the optional chain stops with \<^verbatim>\<open>undefined\<close>.
\<close>

fun get_prop :: "json \<Rightarrow> string \<Rightarrow> json option" where
  "get_prop (JObject kvs) k = map_of kvs k"
| "get_prop _ k = None"

text \<open>JavaScript truthiness (\<^verbatim>\<open>!!v\<close>), for a parsed value and for a possibly undefined one.\<close>

fun truthy :: "json \<Rightarrow> bool" where
  "truthy JNull = False"
| "truthy (JBool b) = b"
| "truthy (JNumber x) = (x \<noteq> 0)"
| "truthy (JString s) = (s \<noteq> [])"
| "truthy (JArray _) = True"
| "truthy (JObject _) = True"

fun truthy_opt :: "json option \<Rightarrow> bool" where
  "truthy_opt None = False"
| "truthy_opt (Some v) = truthy v"

text \<open>
  What the code takes from the browser and does not define itself: \<^verbatim>\<open>atob\<close> and
  \<^verbatim>\<open>JSON.parse\<close> (\<open>None\<close> when they throw), the outcome of \<^verbatim>\<open>v <= n\<close> for a string,
  array or object \<open>v\<close> (after the language's coercion to a number), and \<^verbatim>\<open>String(v)\<close>
  for a value that is not a string.
\<close>

record platform =
  atob :: "string \<Rightarrow> string option"
  JSON_parse :: "string \<Rightarrow> json option"
  coerced_le :: "json \<Rightarrow> int \<Rightarrow> bool"
  ToString :: "json \<Rightarrow> string"

text \<open>\<^verbatim>\<open>v <= n\<close> for an integer \<open>n\<close>: \<^verbatim>\<open>null\<close> counts as 0, \<^verbatim>\<open>true\<close> as 1.\<close>

fun js_le :: "platform \<Rightarrow> json \<Rightarrow> int \<Rightarrow> bool" where
  "js_le P (JNumber x) n = (x \<le> of_int n)"
| "js_le P (JBool b) n = ((if b then 1 else 0) \<le> n)"
| "js_le P JNull n = (0 \<le> n)"
| "js_le P v n = coerced_le P v n"

text \<open>\<^verbatim>\<open>s.split(sep)\<close> for a one-character separator: never the empty list.\<close>

fun str_split :: "char \<Rightarrow> string \<Rightarrow> string list" where
  "str_split sep [] = [[]]"
| "str_split sep (c # cs) =
     (if c = sep then [] # str_split sep cs
      else (case str_split sep cs of
              [] \<Rightarrow> [[c]]
            | p # ps \<Rightarrow> (c # p) # ps))"

text \<open>\<^verbatim>\<open>s.replace(/a/g, "b")\<close> for single characters.\<close>

definition replace_all :: "char \<Rightarrow> char \<Rightarrow> string \<Rightarrow> string" where
  "replace_all a b s = map (\<lambda>c. if c = a then b else c) s"

section \<open>Token persistence (api.ts, lines 43 to 66)\<close>

type_synonym storage = "string \<rightharpoonup> string"

definition BASE :: string where
  "BASE = ''/api''"

definition TOKEN_KEY :: string where
  "TOKEN_KEY = ''access_token''"

definition EMAIL_KEY :: string where
  "EMAIL_KEY = ''current_email''"

definition getToken :: "storage \<Rightarrow> string option" where
  "getToken ls = ls TOKEN_KEY"

definition setToken :: "string \<Rightarrow> storage \<Rightarrow> storage" where
  "setToken token ls = ls(TOKEN_KEY \<mapsto> token)"

definition setCurrentEmail :: "string \<Rightarrow> storage \<Rightarrow> storage" where
  "setCurrentEmail email ls = ls(EMAIL_KEY \<mapsto> email)"

definition getCurrentEmail :: "storage \<Rightarrow> string option" where
  "getCurrentEmail ls = ls EMAIL_KEY"

definition clearSession :: "storage \<Rightarrow> storage" where
  "clearSession ls = (ls(TOKEN_KEY := None))(EMAIL_KEY := None)"

section \<open>Decoding and freshness of the bearer token (api.ts, lines 68 to 84, 220 to 223)\<close>

text \<open>
  \<^verbatim>\<open>decodeJwt\<close>: the second dot-separated part, with \<^verbatim>\<open>-\<close> and \<^verbatim>\<open>_\<close> mapped back to
  the standard alphabet, through \<^verbatim>\<open>atob\<close> and \<^verbatim>\<open>JSON.parse\<close>. A token without a
  second part makes \<^verbatim>\<open>payload.replace\<close> throw; every exception ends in \<^verbatim>\<open>null\<close>.
\<close>

definition decodeJwt :: "platform \<Rightarrow> string \<Rightarrow> json" where
  "decodeJwt P token =
     (case str_split CHR ''.'' token of
        _ # payload # _ \<Rightarrow>
          (case atob P (replace_all CHR ''_'' CHR ''/'' (replace_all CHR ''-'' CHR ''+'' payload)) of
             None \<Rightarrow> JNull
           | Some js \<Rightarrow>
               (case JSON_parse P js of
                  None \<Rightarrow> JNull
                | Some v \<Rightarrow> v))
      | _ \<Rightarrow> JNull)"

text \<open>
  \<^verbatim>\<open>isTokenExpired\<close>, with \<open>now\<close> the value of \<^verbatim>\<open>Date.now()\<close> in milliseconds.
  \<^verbatim>\<open>Math.floor(now / 1000)\<close> is \<open>now div 1000\<close>: both round down.
\<close>

definition isTokenExpired :: "platform \<Rightarrow> int \<Rightarrow> string \<Rightarrow> bool" where
  "isTokenExpired P now token =
     (let payload = decodeJwt P token in
      if \<not> truthy_opt (get_prop payload ''exp'') then False
      else (let nowSec = now div 1000 in
            case get_prop payload ''exp'' of
              None \<Rightarrow> False
            | Some e \<Rightarrow> js_le P e nowSec))"

definition isLoggedIn :: "platform \<Rightarrow> int \<Rightarrow> storage \<Rightarrow> bool" where
  "isLoggedIn P now ls =
     (case getToken ls of
        None \<Rightarrow> False
      | Some t \<Rightarrow> t \<noteq> [] \<and> \<not> isTokenExpired P now t)"

section \<open>A reference codec for running the definitions\<close>

text \<open>
  Theorems below hold for every platform. To run the definitions on a concrete token,
  \<open>atob_impl\<close> follows the forgiving base64 decoding that \<^verbatim>\<open>atob\<close> is specified by
  (ASCII whitespace dropped, padding optional, a remainder of one character or a
  character outside the alphabet is an error), and \<open>JSON_parse_impl\<close> reads JSON text
  (all of the grammar but \<^verbatim>\<open>\u\<close> escapes; of a repeated key the last value stays).
\<close>

definition b64_index :: "char \<Rightarrow> nat option" where
  "b64_index c =
     (let n = (of_char c :: nat) in
      if 65 \<le> n \<and> n \<le> 90 then Some (n - 65)
      else if 97 \<le> n \<and> n \<le> 122 then Some (n - 71)
      else if 48 \<le> n \<and> n \<le> 57 then Some (n + 4)
      else if c = CHR ''+'' then Some 62
      else if c = CHR ''/'' then Some 63
      else None)"

text \<open>The six bits of an index, and the bytes of a bit string; both most significant bit first.\<close>

definition sextet_bits :: "nat \<Rightarrow> bool list" where
  "sextet_bits n =
     [odd (n div 32), odd (n div 16), odd (n div 8), odd (n div 4), odd (n div 2), odd n]"

fun bytes_of_bits :: "bool list \<Rightarrow> string" where
  "bytes_of_bits (b7 # b6 # b5 # b4 # b3 # b2 # b1 # b0 # bs) =
     Char b0 b1 b2 b3 b4 b5 b6 b7 # bytes_of_bits bs"
| "bytes_of_bits _ = []"

definition is_ascii_ws :: "char \<Rightarrow> bool" where
  "is_ascii_ws c =
     (c = CHR 0x09 \<or> c = CHR 0x0A \<or> c = CHR 0x0C \<or> c = CHR 0x0D \<or> c = CHR 0x20)"

definition strip_padding :: "string \<Rightarrow> string" where
  "strip_padding s =
     (if length s mod 4 = 0 then
        (case rev s of
           p # q # r \<Rightarrow>
             if p = CHR ''='' \<and> q = CHR ''='' then rev r
             else if p = CHR ''='' then rev (q # r)
             else s
         | _ \<Rightarrow> s)
      else s)"

definition atob_impl :: "string \<Rightarrow> string option" where
  "atob_impl s =
     (let d = strip_padding (filter (\<lambda>c. \<not> is_ascii_ws c) s) in
      if length d mod 4 = 1 then None
      else map_option (\<lambda>ns. bytes_of_bits (concat (map sextet_bits ns)))
             (those (map b64_index d)))"

definition is_json_ws :: "char \<Rightarrow> bool" where
  "is_json_ws c = (c = CHR 0x20 \<or> c = CHR 0x09 \<or> c = CHR 0x0A \<or> c = CHR 0x0D)"

definition skip_ws :: "string \<Rightarrow> string" where
  "skip_ws s = dropWhile is_json_ws s"

definition is_digit :: "char \<Rightarrow> bool" where
  "is_digit c = (48 \<le> (of_char c :: nat) \<and> (of_char c :: nat) \<le> 57)"

definition digits_val :: "string \<Rightarrow> nat" where
  "digits_val ds = foldl (\<lambda>acc c. 10 * acc + (of_char c - 48)) 0 ds"

definition parse_exponent :: "string \<Rightarrow> (int \<times> string) option" where
  "parse_exponent s =
     (case s of
        [] \<Rightarrow> Some (0, s)
      | c # cs \<Rightarrow>
          if c = CHR ''e'' \<or> c = CHR ''E'' then
            (let (neg, r) = (case cs of
                               [] \<Rightarrow> (False, cs)
                             | d # ds \<Rightarrow> if d = CHR ''-'' then (True, ds)
                                        else if d = CHR ''+'' then (False, ds)
                                        else (False, cs));
                 es = takeWhile is_digit r
             in if es = [] then None
                else Some ((if neg then - int (digits_val es) else int (digits_val es)),
                           dropWhile is_digit r))
          else Some (0, s))"

definition parse_fraction :: "string \<Rightarrow> (rat \<times> string) option" where
  "parse_fraction s =
     (case s of
        [] \<Rightarrow> Some (0, s)
      | c # cs \<Rightarrow>
          if c = CHR ''.'' then
            (let fs = takeWhile is_digit cs in
             if fs = [] then None
             else Some (of_nat (digits_val fs) / 10 ^ length fs, dropWhile is_digit cs))
          else Some (0, s))"

definition parse_number :: "string \<Rightarrow> (rat \<times> string) option" where
  "parse_number s =
     (let (neg, r) = (case s of
                        [] \<Rightarrow> (False, s)
                      | c # cs \<Rightarrow> if c = CHR ''-'' then (True, cs) else (False, s));
          ds = takeWhile is_digit r
      in if ds = [] \<or> (1 < length ds \<and> hd ds = CHR ''0'') then None
         else (case parse_fraction (dropWhile is_digit r) of
                 None \<Rightarrow> None
               | Some (f, r1) \<Rightarrow>
                   (case parse_exponent r1 of
                      None \<Rightarrow> None
                    | Some (e, r2) \<Rightarrow>
                        (let m = of_nat (digits_val ds) + f;
                             v = (if 0 \<le> e then m * 10 ^ nat e else m / 10 ^ nat (- e))
                         in Some (if neg then - v else v, r2)))))"

definition unescape :: "char \<Rightarrow> char option" where
  "unescape e =
     (if e = CHR 0x22 \<or> e = CHR 0x5C \<or> e = CHR ''/'' then Some e
      else if e = CHR ''b'' then Some (CHR 0x08)
      else if e = CHR ''f'' then Some (CHR 0x0C)
      else if e = CHR ''n'' then Some (CHR 0x0A)
      else if e = CHR ''r'' then Some (CHR 0x0D)
      else if e = CHR ''t'' then Some (CHR 0x09)
      else None)"

text \<open>The characters of a string literal after its opening quote, and what follows it.\<close>

fun parse_chars :: "string \<Rightarrow> (string \<times> string) option" where
  "parse_chars [] = None"
| "parse_chars [c] = (if c = CHR 0x22 then Some ([], []) else None)"
| "parse_chars (c # e # cs) =
     (if c = CHR 0x22 then Some ([], e # cs)
      else if c = CHR 0x5C then
        (case unescape e of
           None \<Rightarrow> None
         | Some d \<Rightarrow> map_option (\<lambda>(s, r). (d # s, r)) (parse_chars cs))
      else if (of_char c :: nat) < 32 then None
      else map_option (\<lambda>(s, r). (c # s, r)) (parse_chars (e # cs)))"

definition obj_put :: "string \<Rightarrow> json \<Rightarrow> (string \<times> json) list \<Rightarrow> (string \<times> json) list" where
  "obj_put k v kvs = (if map_of kvs k = None then (k, v) # kvs else kvs)"

fun starts_with :: "string \<Rightarrow> string \<Rightarrow> bool" where
  "starts_with s [] = True"
| "starts_with [] (p # ps) = False"
| "starts_with (c # cs) (p # ps) = (c = p \<and> starts_with cs ps)"

text \<open>The fuel bounds the nesting and the number of items; the length of the text is enough.\<close>

fun parse_value :: "nat \<Rightarrow> string \<Rightarrow> (json \<times> string) option"
  and parse_elements :: "nat \<Rightarrow> string \<Rightarrow> (json list \<times> string) option"
  and parse_members :: "nat \<Rightarrow> string \<Rightarrow> ((string \<times> json) list \<times> string) option"
where
  "parse_value 0 s = None"
| "parse_value (Suc n) s =
     (case skip_ws s of
        [] \<Rightarrow> None
      | c # cs \<Rightarrow>
          if c = CHR ''{'' then
            (if starts_with (skip_ws cs) ''}'' then Some (JObject [], tl (skip_ws cs))
             else map_option (\<lambda>(m, r). (JObject m, r)) (parse_members n cs))
          else if c = CHR ''['' then
            (if starts_with (skip_ws cs) '']'' then Some (JArray [], tl (skip_ws cs))
             else map_option (\<lambda>(xs, r). (JArray xs, r)) (parse_elements n cs))
          else if c = CHR 0x22 then map_option (\<lambda>(t, r). (JString t, r)) (parse_chars cs)
          else if starts_with (c # cs) ''true'' then Some (JBool True, drop 4 (c # cs))
          else if starts_with (c # cs) ''false'' then Some (JBool False, drop 5 (c # cs))
          else if starts_with (c # cs) ''null'' then Some (JNull, drop 4 (c # cs))
          else map_option (\<lambda>(x, r). (JNumber x, r)) (parse_number (c # cs)))"
| "parse_elements 0 s = None"
| "parse_elements (Suc n) s =
     (case parse_value n s of
        None \<Rightarrow> None
      | Some (v, r) \<Rightarrow>
          (case skip_ws r of
             [] \<Rightarrow> None
           | c # cs \<Rightarrow>
               if c = CHR '','' then map_option (\<lambda>(vs, r'). (v # vs, r')) (parse_elements n cs)
               else if c = CHR '']'' then Some ([v], cs)
               else None))"
| "parse_members 0 s = None"
| "parse_members (Suc n) s =
     (case skip_ws s of
        [] \<Rightarrow> None
      | q # s1 \<Rightarrow>
          if q \<noteq> CHR 0x22 then None
          else (case parse_chars s1 of
                  None \<Rightarrow> None
                | Some (k, s2) \<Rightarrow>
                    (case skip_ws s2 of
                       [] \<Rightarrow> None
                     | colon # s3 \<Rightarrow>
                         if colon \<noteq> CHR '':'' then None
                         else (case parse_value n s3 of
                                 None \<Rightarrow> None
                               | Some (v, s4) \<Rightarrow>
                                   (case skip_ws s4 of
                                      [] \<Rightarrow> None
                                    | c # cs \<Rightarrow>
                                        if c = CHR '','' then
                                          map_option (\<lambda>(m, r). (obj_put k v m, r))
                                            (parse_members n cs)
                                        else if c = CHR ''}'' then Some ([(k, v)], cs)
                                        else None)))))"

definition JSON_parse_impl :: "string \<Rightarrow> json option" where
  "JSON_parse_impl s =
     (case parse_value (Suc (length s)) s of
        None \<Rightarrow> None
      | Some (v, r) \<Rightarrow> if skip_ws r = [] then Some v else None)"

text \<open>A browser: the reference codec, with the two coercions left open.\<close>

definition browser :: "(json \<Rightarrow> int \<Rightarrow> bool) \<Rightarrow> (json \<Rightarrow> string) \<Rightarrow> platform" where
  "browser le str =
     \<lparr>atob = atob_impl, JSON_parse = JSON_parse_impl, coerced_le = le, ToString = str\<rparr>"

section \<open>Requests, responses and errors\<close>

text \<open>
  What is thrown: the \<^verbatim>\<open>Error\<close> that \<^verbatim>\<open>handleJsonResponse\<close> builds (message, and
  the \<^verbatim>\<open>status\<close> and \<^verbatim>\<open>data\<close> fields it adds), or an error of the platform (a
  \<^verbatim>\<open>SyntaxError\<close> of \<^verbatim>\<open>res.json()\<close>, a \<^verbatim>\<open>TypeError\<close> of \<^verbatim>\<open>fetch\<close> or of a read on
  \<^verbatim>\<open>null\<close>), which has a message and neither field.
\<close>

datatype js_error =
    HttpError string int json
  | PlatformError string

fun err_message :: "js_error \<Rightarrow> string" where
  "err_message (HttpError m s d) = m"
| "err_message (PlatformError m) = m"

fun err_status :: "js_error \<Rightarrow> int option" where
  "err_status (HttpError m s d) = Some s"
| "err_status (PlatformError m) = None"

fun err_data :: "js_error \<Rightarrow> json option" where
  "err_data (HttpError m s d) = Some d"
| "err_data (PlatformError m) = None"

text \<open>
  A request as \<^verbatim>\<open>fetch\<close> receives it. The query string and the body are kept as the
  values they are built from: \<open>JsonBody v\<close> is \<^verbatim>\<open>JSON.stringify(v)\<close>, \<open>FormBody\<close> and
  \<open>query\<close> are the pairs appended to a \<^verbatim>\<open>URLSearchParams\<close>, in order.
\<close>

datatype body = NoBody | JsonBody json | FormBody "(string \<times> string) list"

record request =
  http_method :: string
  url :: string
  query :: "(string \<times> string) list"
  headers :: "(string \<times> string) list"
  body :: body

text \<open>
  A response: \<open>content_type\<close> is \<^verbatim>\<open>res.headers.get("Content-Type")\<close>, \<open>json_body\<close> is
  what \<^verbatim>\<open>res.json()\<close> settles to (the parsed body, or the \<^verbatim>\<open>SyntaxError\<close> it rejects
  with when the body is not JSON text). \<^verbatim>\<open>res.ok\<close> is a status from 200 to 299.
\<close>

record response =
  status :: int
  statusText :: string
  content_type :: "string option"
  json_body :: "js_error + json"

definition ok :: "response \<Rightarrow> bool" where
  "ok res = (200 \<le> status res \<and> status res \<le> 299)"

text \<open>The network answers a request with a response, or \<^verbatim>\<open>fetch\<close> rejects.\<close>

type_synonym network = "request \<Rightarrow> js_error + response"

text \<open>The state the client code acts on: \<^verbatim>\<open>localStorage\<close>, and the requests sent so far.\<close>

record world =
  localStorage :: storage
  sent :: "request list"

definition fetch :: "network \<Rightarrow> request \<Rightarrow> world \<Rightarrow> (js_error + response) \<times> world" where
  "fetch net req w = (net req, w\<lparr>sent := sent w @ [req]\<rparr>)"

text \<open>\<^verbatim>\<open>s.includes(sub)\<close>.\<close>

fun str_includes :: "string \<Rightarrow> string \<Rightarrow> bool" where
  "str_includes [] sub = (sub = [])"
| "str_includes (c # cs) sub = (starts_with (c # cs) sub \<or> str_includes cs sub)"

text \<open>\<^verbatim>\<open>String(v)\<close>: a string is itself.\<close>

fun js_String :: "platform \<Rightarrow> json \<Rightarrow> string" where
  "js_String P (JString s) = s"
| "js_String P v = ToString P v"

text \<open>\<^verbatim>\<open>String(n)\<close> for a natural number: its decimal digits.\<close>

fun String_nat :: "nat \<Rightarrow> string" where
  "String_nat n =
     (if n < 10 then [char_of (48 + n)]
      else String_nat (n div 10) @ [char_of (48 + n mod 10)])"

definition String_bool :: "bool \<Rightarrow> string" where
  "String_bool b = (if b then ''true'' else ''false'')"

section \<open>The API client (api.ts, lines 86 to 201)\<close>

definition authHeaders :: "storage \<Rightarrow> (string \<times> string) list" where
  "authHeaders ls =
     (case getToken ls of
        None \<Rightarrow> []
      | Some token \<Rightarrow> if token \<noteq> [] then [(''Authorization'', ''Bearer '' @ token)] else [])"

text \<open>
  \<^verbatim>\<open>handleJsonResponse\<close>, with its locals \<^verbatim>\<open>isJson\<close> and \<^verbatim>\<open>data\<close> as functions of
  the response. \<open>data\<close> is \<^verbatim>\<open>null\<close> unless the content type names JSON; a rejection
  of \<^verbatim>\<open>res.json()\<close> leaves the function before \<^verbatim>\<open>res.ok\<close> is looked at.
\<close>

definition isJson :: "response \<Rightarrow> bool" where
  "isJson res =
     (let contentType = (case content_type res of None \<Rightarrow> [] | Some c \<Rightarrow> c)
      in str_includes contentType ''application/json'')"

definition response_data :: "response \<Rightarrow> js_error + json" where
  "response_data res = (if isJson res then json_body res else Inr JNull)"

definition handleJsonResponse :: "platform \<Rightarrow> response \<Rightarrow> js_error + json" where
  "handleJsonResponse P res =
     (case response_data res of
        Inl e \<Rightarrow> Inl e
      | Inr data \<Rightarrow>
          if \<not> ok res then
            (let detail =
                   (case get_prop data ''detail'' of
                      None \<Rightarrow> (if statusText res \<noteq> [] then statusText res else ''Request failed'')
                    | Some d \<Rightarrow>
                        if truthy d then js_String P d
                        else if statusText res \<noteq> [] then statusText res
                        else ''Request failed'')
             in Inl (HttpError detail (status res) data))
          else Inr data)"

definition register_request :: "string \<Rightarrow> string \<Rightarrow> request" where
  "register_request email password =
     \<lparr>http_method = ''POST'', url = BASE @ ''/auth/register'', query = [],
      headers = [(''Content-Type'', ''application/json'')],
      body = JsonBody (JObject [(''email'', JString email), (''password'', JString password)])\<rparr>"

definition register :: "platform \<Rightarrow> network \<Rightarrow> string \<Rightarrow> string \<Rightarrow> world \<Rightarrow> (js_error + json) \<times> world" where
  "register P net email password w =
     (case fetch net (register_request email password) w of
        (Inl e, w') \<Rightarrow> (Inl e, w')
      | (Inr res, w') \<Rightarrow> (handleJsonResponse P res, w'))"

definition login_request :: "string \<Rightarrow> string \<Rightarrow> request" where
  "login_request email password =
     \<lparr>http_method = ''POST'', url = BASE @ ''/auth/login'', query = [],
      headers = [(''Content-Type'', ''application/x-www-form-urlencoded'')],
      body = FormBody [(''username'', email), (''password'', password)]\<rparr>"

text \<open>
  \<^verbatim>\<open>login\<close>. \<^verbatim>\<open>data.access_token\<close> throws on \<^verbatim>\<open>null\<close>; otherwise it is whatever the
  body holds under that name, \<^verbatim>\<open>undefined\<close> included. \<^verbatim>\<open>localStorage.setItem\<close> stores
  the string of it, and \<^verbatim>\<open>decodeJwt\<close> of anything but a string ends in its
  \<^verbatim>\<open>catch\<close>. The result is the pair \<^verbatim>\<open>{token, adm}\<close>.
\<close>

definition stored_string :: "platform \<Rightarrow> json option \<Rightarrow> string" where
  "stored_string P v =
     (case v of None \<Rightarrow> ''undefined'' | Some x \<Rightarrow> (if x = JNull then ''null'' else js_String P x))"

definition decodeJwt_any :: "platform \<Rightarrow> json option \<Rightarrow> json" where
  "decodeJwt_any P v = (case v of Some (JString token) \<Rightarrow> decodeJwt P token | _ \<Rightarrow> JNull)"

definition login :: "platform \<Rightarrow> network \<Rightarrow> string \<Rightarrow> string \<Rightarrow> world \<Rightarrow> (js_error + json option \<times> bool) \<times> world" where
  "login P net email password w =
     (case fetch net (login_request email password) w of
        (Inl e, w1) \<Rightarrow> (Inl e, w1)
      | (Inr res, w1) \<Rightarrow>
          (case handleJsonResponse P res of
             Inl e \<Rightarrow> (Inl e, w1)
           | Inr data \<Rightarrow>
               if data = JNull
               then (Inl (PlatformError ''Cannot read properties of null''), w1)
               else
                 (let access_token = get_prop data ''access_token'';
                      w2 = w1\<lparr>localStorage := setToken (stored_string P access_token) (localStorage w1)\<rparr>;
                      w3 = w2\<lparr>localStorage := setCurrentEmail email (localStorage w2)\<rparr>;
                      payload = decodeJwt_any P access_token
                  in (Inr (access_token, truthy_opt (get_prop payload ''adm'')), w3))))"

definition logout :: "world \<Rightarrow> world" where
  "logout w = w\<lparr>localStorage := clearSession (localStorage w)\<rparr>"

text \<open>\<^verbatim>\<open>adminUpdateUser\<close>: \<open>None\<close> is a flag that \<^verbatim>\<open>changes\<close> does not hold.\<close>

record changes =
  make_admin :: "bool option"
  verify_email :: "bool option"
  deactivate :: "bool option"

definition update_params :: "changes \<Rightarrow> (string \<times> string) list" where
  "update_params c =
     (case make_admin c of None \<Rightarrow> [] | Some b \<Rightarrow> [(''make_admin'', String_bool b)]) @
     (case verify_email c of None \<Rightarrow> [] | Some b \<Rightarrow> [(''verify_email'', String_bool b)]) @
     (case deactivate c of None \<Rightarrow> [] | Some b \<Rightarrow> [(''deactivate'', String_bool b)])"

definition adminUpdateUser_request :: "storage \<Rightarrow> nat \<Rightarrow> changes \<Rightarrow> request" where
  "adminUpdateUser_request ls userId c =
     \<lparr>http_method = ''PATCH'', url = BASE @ ''/admin/users/'' @ String_nat userId,
      query = update_params c, headers = authHeaders ls, body = NoBody\<rparr>"

definition adminUpdateUser :: "platform \<Rightarrow> network \<Rightarrow> nat \<Rightarrow> changes \<Rightarrow> world \<Rightarrow> (js_error + json) \<times> world" where
  "adminUpdateUser P net userId c w =
     (case fetch net (adminUpdateUser_request (localStorage w) userId c) w of
        (Inl e, w') \<Rightarrow> (Inl e, w')
      | (Inr res, w') \<Rightarrow> (handleJsonResponse P res, w'))"

section \<open>The screens that call the client\<close>

text \<open>
  A handler's visible effects, in the order it makes them: the React state setters it
  calls, the callbacks of its props, and the toasts.
\<close>

datatype ui_event =
    SetError string
  | SetSuccess bool
  | SetLoading bool
  | OnLogin string string
  | OnRequireVerification string
  | OnNavigate string
  | SetUsers_replacing nat json
  | SetDrawerOpen bool
  | SetSelectedUser_null
  | ToastSuccess string
  | ToastError string

text \<open>\<^verbatim>\<open>String(err?.data?.detail || err?.message || fallback)\<close>, as the catch blocks build it.\<close>

definition error_text :: "platform \<Rightarrow> js_error \<Rightarrow> string \<Rightarrow> string" where
  "error_text P err fallback =
     (let msg = (if err_message err \<noteq> [] then err_message err else fallback) in
      case err_data err of
        None \<Rightarrow> msg
      | Some d \<Rightarrow>
          (case get_prop d ''detail'' of
             None \<Rightarrow> msg
           | Some v \<Rightarrow> if truthy v then js_String P v else msg))"

subsection \<open>Login.tsx, handleSubmit (lines 52 to 78)\<close>

definition Login_handleSubmit :: "platform \<Rightarrow> network \<Rightarrow> string \<Rightarrow> string \<Rightarrow> world \<Rightarrow> ui_event list \<times> world" where
  "Login_handleSubmit P net email password w =
     (if email = [] \<or> password = [] then
        ([SetError [], SetError ''Please enter both email and password''], w)
      else
        (case login P net email password w of
           (Inr (token, adm), w') \<Rightarrow>
             (let role = (if adm then ''admin'' else ''user'') in
              ([SetError [], SetLoading True, OnLogin email role, SetLoading False], w'))
         | (Inl err, w') \<Rightarrow>
             (if err_status err = Some 403 then
                ([SetError [], SetLoading True, SetError ''Email not verified'',
                  OnRequireVerification email, SetLoading False], w')
              else if err_status err = Some 429 then
                ([SetError [], SetLoading True, SetError ''Too many attempts, please try later'',
                  SetLoading False], w')
              else
                ([SetError [], SetLoading True,
                  SetError (if err_message err \<noteq> [] then err_message err else ''Invalid credentials''),
                  SetLoading False], w'))))"

subsection \<open>Register.tsx, handleSubmit (lines 48 to 75)\<close>

definition Register_handleSubmit :: "platform \<Rightarrow> network \<Rightarrow> string \<Rightarrow> string \<Rightarrow> world \<Rightarrow> ui_event list \<times> world" where
  "Register_handleSubmit P net email password w =
     (if email = [] \<or> \<not> str_includes email ''@'' then
        ([SetError [], SetSuccess False, SetError ''Please enter a valid email address''], w)
      else if length password < 8 then
        ([SetError [], SetSuccess False, SetError ''Password must be at least 8 characters''], w)
      else
        (case register P net email password w of
           (Inr user, w') \<Rightarrow>
             ([SetError [], SetSuccess False, SetLoading True, SetSuccess True,
               OnNavigate ''verify-email'', SetLoading False], w')
         | (Inl err, w') \<Rightarrow>
             ([SetError [], SetSuccess False, SetLoading True,
               SetError (error_text P err ''Registration failed''), SetLoading False], w')))"

subsection \<open>AdminUsers, handleUpdateUser (Register.tsx, lines 427 to 454)\<close>

text \<open>
  The three flags are shared by the form (\<^verbatim>\<open>formData\<close>) and by a user of the list
  (\<^verbatim>\<open>interface User\<close>), which adds the rest.
\<close>

record UserFlags =
  is_admin :: bool
  email_verified :: bool
  is_active :: bool

record User = UserFlags +
  id' :: nat
  email :: string
  created_at :: string

definition handleUpdateUser_changes :: "UserFlags \<Rightarrow> User \<Rightarrow> changes" where
  "handleUpdateUser_changes formData selectedUser =
     \<lparr>make_admin =
        (if is_admin formData \<noteq> is_admin selectedUser then Some (is_admin formData) else None),
      verify_email =
        (if email_verified formData \<noteq> email_verified selectedUser
         then Some (email_verified formData) else None),
      deactivate =
        (if is_active formData \<noteq> is_active selectedUser
         then Some (\<not> is_active formData) else None)\<rparr>"

definition handleUpdateUser :: "platform \<Rightarrow> network \<Rightarrow> UserFlags \<Rightarrow> User option \<Rightarrow> world \<Rightarrow> ui_event list \<times> world" where
  "handleUpdateUser P net formData selected w =
     (case selected of
        None \<Rightarrow> ([], w)
      | Some selectedUser \<Rightarrow>
          (case adminUpdateUser P net (id' selectedUser)
                  (handleUpdateUser_changes formData selectedUser) w of
             (Inr updated, w') \<Rightarrow>
               ([SetLoading True, SetUsers_replacing (id' selectedUser) updated,
                 SetDrawerOpen False, SetSelectedUser_null,
                 ToastSuccess ''User updated successfully'', SetLoading False], w')
           | (Inl err, w') \<Rightarrow>
               ([SetLoading True, ToastError (error_text P err ''Failed to update user''),
                 SetLoading False], w')))"

section \<open>The backend, from the specification\<close>

text \<open>
  Modelled from the spec: \<^verbatim>\<open>backend/main.py\<close> is not among the source files, so the
  stored user follows section 3 of the specification (User): the fields the admin
  screen shows, and the password hash.
\<close>

record StoredUser = User +
  password_hash :: string

text \<open>
  Modelled from the spec: the EmailVerificationToken of section 3, whose code is
  missing: the owning user, and whether the token has been used. Of the two ways
  the section allows for a used token ("deleted or marked spent") the record is
  kept and marked, so that the token "can never verify again". The creation time
  plays no part below and is left out.
\<close>

record EmailVerificationToken =
  user_id :: nat
  consumed :: bool

text \<open>
  Modelled from the spec: the state of the Credential Store and of the Verification
  Token Service (sections 3 and 4.3), whose code is missing: the user records, and
  the table of verification tokens. The token string is the key of the table, as the
  data model has it ("token: unique opaque string").
\<close>

record backend =
  users :: "StoredUser list"
  tokens :: "string \<rightharpoonup> EmailVerificationToken"

text \<open>
  Modelled from the spec: the error taxonomy of section 7 and its status codes, with
  the "400 bad credentials" of the login row of section 6; the code that raises them
  is missing.
\<close>

datatype failure =
    InvalidInput
  | BadCredentials
  | Conflict
  | Unauthenticated
  | Unverified
  | Forbidden
  | NotFound
  | RateLimited
  | Internal

fun http_status :: "failure \<Rightarrow> int" where
  "http_status InvalidInput = 400"
| "http_status BadCredentials = 400"
| "http_status Conflict = 409"
| "http_status Unauthenticated = 401"
| "http_status Unverified = 403"
| "http_status Forbidden = 403"
| "http_status NotFound = 404"
| "http_status RateLimited = 429"
| "http_status Internal = 500"

text \<open>
  Modelled from the spec: \<^verbatim>\<open>issue(user_id) -> token\<close> of section 4.3, whose code is
  missing. The token string comes from a generator, which is a parameter (nothing
  is assumed of it). The new token is stored with its user, not yet consumed, and
  returned. Tokens are unique: a string that the table already holds, consumed or
  not, is not stored a second time, and the call fails.
\<close>

definition issue :: "(backend \<Rightarrow> nat \<Rightarrow> string) \<Rightarrow> nat \<Rightarrow> backend \<Rightarrow> failure + string \<times> backend" where
  "issue gen uid b =
     (let token = gen b uid in
      case tokens b token of
        Some e \<Rightarrow> Inl Internal
      | None \<Rightarrow>
          Inr (token, b\<lparr>tokens := (tokens b)(token \<mapsto> \<lparr>user_id = uid, consumed = False\<rparr>)\<rparr>))"

text \<open>
  Modelled from the spec: \<^verbatim>\<open>consume(token) -> user_id\<close> of section 4.3, whose code is
  missing: a token that is unknown or already consumed fails with NotFound; otherwise
  its owner's \<^verbatim>\<open>email_verified\<close> is set and the token is marked consumed, in one
  step.
\<close>

definition mark_verified :: "nat \<Rightarrow> StoredUser list \<Rightarrow> StoredUser list" where
  "mark_verified uid us =
     map (\<lambda>u. if id' u = uid then u\<lparr>email_verified := True\<rparr> else u) us"

definition consume :: "string \<Rightarrow> backend \<Rightarrow> failure + nat \<times> backend" where
  "consume token b =
     (case tokens b token of
        None \<Rightarrow> Inl NotFound
      | Some e \<Rightarrow>
          if consumed e then Inl NotFound
          else Inr (user_id e,
                    b\<lparr>users := mark_verified (user_id e) (users b),
                      tokens := (tokens b)(token \<mapsto> e\<lparr>consumed := True\<rparr>)\<rparr>))"

text \<open>
  Modelled from the spec: the calls that reach the Verification Token Service, one
  after the other (a call is atomic, section 5); a failed call leaves the state as it
  was.
\<close>

datatype token_call = Issue nat | Consume string

fun token_step :: "(backend \<Rightarrow> nat \<Rightarrow> string) \<Rightarrow> token_call \<Rightarrow> backend \<Rightarrow> backend" where
  "token_step gen (Issue uid) b =
     (case issue gen uid b of Inl e \<Rightarrow> b | Inr (token, b') \<Rightarrow> b')"
| "token_step gen (Consume token) b =
     (case consume token b of Inl e \<Rightarrow> b | Inr (uid, b') \<Rightarrow> b')"

fun token_run :: "(backend \<Rightarrow> nat \<Rightarrow> string) \<Rightarrow> token_call list \<Rightarrow> backend \<Rightarrow> backend" where
  "token_run gen [] b = b"
| "token_run gen (c # cs) b = token_run gen cs (token_step gen c b)"

text \<open>
  Modelled from the spec: the login decision of sections 4.2, 4.6 and 8, whose code is
  missing. Emails compare without regard to case; an unknown email is bad
  credentials; an unverified account fails with Unverified whatever else holds
  ("login before verification always fails with Unverified"); then the password and
  the active flag are checked. \<open>verify\<close> is the Password Hasher's check.
\<close>

definition lower :: "string \<Rightarrow> string" where
  "lower s =
     map (\<lambda>c. case map_of (zip ''ABCDEFGHIJKLMNOPQRSTUVWXYZ'' ''abcdefghijklmnopqrstuvwxyz'') c of
                None \<Rightarrow> c
              | Some d \<Rightarrow> d) s"

definition backend_login :: "(string \<Rightarrow> string \<Rightarrow> bool) \<Rightarrow> string \<Rightarrow> string \<Rightarrow> backend \<Rightarrow> failure + StoredUser" where
  "backend_login verify username password b =
     (case find (\<lambda>u. lower (email u) = lower username) (users b) of
        None \<Rightarrow> Inl BadCredentials
      | Some u \<Rightarrow>
          if \<not> email_verified u then Inl Unverified
          else if \<not> verify password (password_hash u) then Inl BadCredentials
          else if \<not> is_active u then Inl BadCredentials
          else Inr u)"

section \<open>Sample inputs\<close>

text \<open>
  Concrete inputs on which the theorems below are run: an empty browser state, the
  login route's answer to a verified administrator (the token's payload is
  \<^verbatim>\<open>{"sub":"a@x.com","adm":true}\<close>), its answer to an unverified account, a
  backend that holds one unverified user and no token yet, and a token generator.
\<close>

definition fresh_world :: world where
  "fresh_world = \<lparr>localStorage = Map.empty, sent = []\<rparr>"

definition login_ok_response :: response where
  "login_ok_response =
     \<lparr>status = 200, statusText = ''OK'', content_type = Some ''application/json'',
      json_body = Inr (JObject [(''access_token'', JString ''h.eyJzdWIiOiJhQHguY29tIiwiYWRtIjp0cnVlfQ.s''),
                                (''token_type'', JString ''bearer''),
                                (''expires_in'', JNumber 3600)])\<rparr>"

definition unverified_response :: response where
  "unverified_response =
     \<lparr>status = 403, statusText = ''Forbidden'', content_type = Some ''application/json'',
      json_body = Inr (JObject [(''detail'', JString ''Email not verified'')])\<rparr>"

definition sample_user :: StoredUser where
  "sample_user =
     \<lparr>is_admin = False, email_verified = False, is_active = True,
      id' = 1, email = ''a@x.com'', created_at = ''2024-01-01T00:00:00'',
      password_hash = ''pbkdf2''\<rparr>"

definition sample_backend :: backend where
  "sample_backend = \<lparr>users = [sample_user], tokens = Map.empty\<rparr>"

definition sample_generator :: "backend \<Rightarrow> nat \<Rightarrow> string" where
  "sample_generator b uid = (if uid = 1 then ''t1'' else ''t2'')"

section \<open>Freshness of the stored token\<close>

lemma isTokenExpired_numeric:
  assumes "get_prop (decodeJwt P token) ''exp'' = Some (JNumber e)"
  shows "isTokenExpired P now token \<longleftrightarrow> e \<noteq> 0 \<and> e \<le> of_int (now div 1000)"
  using assms by (simp add: isTokenExpired_def Let_def)

text \<open>
  Two tokens to run the definitions on. Their middle parts are the base64 of
  \<^verbatim>\<open>{"exp":0}\<close> and of \<^verbatim>\<open>{"sub":"a@x.com","adm":true}\<close>.
\<close>

lemma atob_exp_zero:
  "atob_impl ''eyJleHAiOjB9'' = Some (CHR ''{'' # CHR 0x22 # ''exp'' @ CHR 0x22 # '':0}'')"
  by (simp add: atob_impl_def strip_padding_def is_ascii_ws_def b64_index_def sextet_bits_def)

lemma parse_exp_zero:
  "JSON_parse_impl (CHR ''{'' # CHR 0x22 # ''exp'' @ CHR 0x22 # '':0}'')
     = Some (JObject [(''exp'', JNumber 0)])"
  by code_simp

lemma decode_exp_zero:
  "decodeJwt (browser le str) ''h.eyJleHAiOjB9.s'' = JObject [(''exp'', JNumber 0)]"
  using atob_exp_zero parse_exp_zero
  by (simp add: decodeJwt_def browser_def replace_all_def)

lemma atob_sub_adm:
  "atob_impl ''eyJzdWIiOiJhQHguY29tIiwiYWRtIjp0cnVlfQ''
     = Some (CHR ''{'' # CHR 0x22 # ''sub'' @ CHR 0x22 # CHR '':'' # CHR 0x22 # ''a@x.com'' @
             CHR 0x22 # CHR '','' # CHR 0x22 # ''adm'' @ CHR 0x22 # '':true}'')"
  by (simp add: atob_impl_def strip_padding_def is_ascii_ws_def b64_index_def sextet_bits_def)

lemma parse_sub_adm:
  "JSON_parse_impl (CHR ''{'' # CHR 0x22 # ''sub'' @ CHR 0x22 # CHR '':'' # CHR 0x22 # ''a@x.com'' @
                    CHR 0x22 # CHR '','' # CHR 0x22 # ''adm'' @ CHR 0x22 # '':true}'')
     = Some (JObject [(''sub'', JString ''a@x.com''), (''adm'', JBool True)])"
  by code_simp

lemma decode_sub_adm:
  "decodeJwt (browser le str) ''h.eyJzdWIiOiJhQHguY29tIiwiYWRtIjp0cnVlfQ.s''
     = JObject [(''sub'', JString ''a@x.com''), (''adm'', JBool True)]"
  using atob_sub_adm parse_sub_adm
  by (simp add: decodeJwt_def browser_def replace_all_def)

text \<open>
  Claim C1, at the token whose payload is \<^verbatim>\<open>{"exp":0}\<close>: the payload carries a numeric
  \<^verbatim>\<open>exp\<close>, and \<^verbatim>\<open>exp\<close> is not after the clock (here 1700000000 seconds, and any
  clock since 1970 would do), yet \<^verbatim>\<open>isTokenExpired\<close> returns false and \<^verbatim>\<open>isLoggedIn\<close>
  returns true when it is the stored token. The test \<^verbatim>\<open>!payload?.exp\<close> takes the
  number 0 for a missing claim. For every other numeric \<^verbatim>\<open>exp\<close> the check is the
  claim's (lemma \<open>isTokenExpired_numeric\<close>).
\<close>

theorem isTokenExpired_exp_zero:
  "get_prop (decodeJwt (browser le str) ''h.eyJleHAiOjB9.s'') ''exp'' = Some (JNumber 0) \<and>
   (0 :: rat) \<le> of_int (1700000000000 div 1000) \<and>
   \<not> isTokenExpired (browser le str) 1700000000000 ''h.eyJleHAiOjB9.s'' \<and>
   isLoggedIn (browser le str) 1700000000000 [TOKEN_KEY \<mapsto> ''h.eyJleHAiOjB9.s'']"
  by (simp add: decode_exp_zero isTokenExpired_def isLoggedIn_def getToken_def)

text \<open>
  Claim C10: when \<^verbatim>\<open>decodeJwt\<close> returns \<^verbatim>\<open>null\<close> for a token, or the decoded payload
  has no \<^verbatim>\<open>exp\<close>, \<^verbatim>\<open>isTokenExpired\<close> returns false; so when such a token is not empty
  and is the stored one, \<^verbatim>\<open>isLoggedIn\<close> returns true, whatever the clock says.
\<close>

theorem isTokenExpired_without_exp:
  assumes "decodeJwt P token = JNull \<or> get_prop (decodeJwt P token) ''exp'' = None"
  shows "\<not> isTokenExpired P now token \<and>
         (token \<noteq> [] \<and> getToken ls = Some token \<longrightarrow> isLoggedIn P now ls)"
proof -
  from assms have "get_prop (decodeJwt P token) ''exp'' = None"
    by auto
  then have "\<not> isTokenExpired P now token"
    by (simp add: isTokenExpired_def Let_def)
  then show ?thesis
    by (simp add: isLoggedIn_def)
qed

theorem isTokenExpired_without_exp_witness:
  "\<forall>le str now.
     get_prop (decodeJwt (browser le str) ''h.eyJzdWIiOiJhQHguY29tIiwiYWRtIjp0cnVlfQ.s'') ''exp'' = None \<and>
     \<not> isTokenExpired (browser le str) now ''h.eyJzdWIiOiJhQHguY29tIiwiYWRtIjp0cnVlfQ.s'' \<and>
     isLoggedIn (browser le str) now [TOKEN_KEY \<mapsto> ''h.eyJzdWIiOiJhQHguY29tIiwiYWRtIjp0cnVlfQ.s'']"
proof (intro allI)
  fix le str now
  let ?P = "browser le str" and ?t = "''h.eyJzdWIiOiJhQHguY29tIiwiYWRtIjp0cnVlfQ.s''"
  have h: "get_prop (decodeJwt ?P ?t) ''exp'' = None"
    by (simp add: decode_sub_adm)
  have g: "getToken [TOKEN_KEY \<mapsto> ?t] = Some ?t"
    by (simp add: getToken_def)
  from isTokenExpired_without_exp [of ?P ?t now "[TOKEN_KEY \<mapsto> ?t]"] h g
  show "get_prop (decodeJwt ?P ?t) ''exp'' = None \<and> \<not> isTokenExpired ?P now ?t \<and>
        isLoggedIn ?P now [TOKEN_KEY \<mapsto> ?t]"
    by simp
qed

section \<open>Logging out\<close>

text \<open>
  Claim C5, on any browser state (one that holds a token and whose server keeps a
  session for it included): \<^verbatim>\<open>logout\<close> removes the token and the email from
  \<^verbatim>\<open>localStorage\<close> and sends no request. Nothing reaches \<^verbatim>\<open>POST /auth/logout\<close>, so a
  session on the server stays as it was.
\<close>

theorem logout_sends_no_request:
  "sent (logout w) = sent w \<and>
   getToken (localStorage (logout w)) = None \<and>
   getCurrentEmail (localStorage (logout w)) = None"
  by (simp add: logout_def clearSession_def getToken_def getCurrentEmail_def)

section \<open>The registration form\<close>

lemma str_includes_char: "str_includes s [c] \<longleftrightarrow> c \<in> set s"
  by (induction s) auto

text \<open>
  Claim C7: when the password has fewer than 8 characters, or the email holds no
  \<^verbatim>\<open>@\<close>, the handler ends by showing an error message, and it leaves the state as it
  was: no request has been sent, to \<^verbatim>\<open>/auth/register\<close> or anywhere else.
\<close>

theorem register_rejects_invalid_input:
  assumes "length pw < 8 \<or> CHR ''@'' \<notin> set em"
  shows "(\<exists>msg. msg \<noteq> [] \<and> last (fst (Register_handleSubmit P net em pw w)) = SetError msg) \<and>
         snd (Register_handleSubmit P net em pw w) = w \<and>
         sent (snd (Register_handleSubmit P net em pw w)) = sent w"
  using assms by (auto simp: Register_handleSubmit_def str_includes_char)

theorem register_rejects_invalid_input_witness:
  "\<forall>P net.
     length ''short'' < 8 \<and>
     Register_handleSubmit P net ''a@x.com'' ''short'' fresh_world
       = ([SetError [], SetSuccess False, SetError ''Password must be at least 8 characters''],
          fresh_world) \<and>
     sent (snd (Register_handleSubmit P net ''a@x.com'' ''short'' fresh_world)) = [] \<and>
     CHR ''@'' \<notin> set ''nobody'' \<and>
     Register_handleSubmit P net ''nobody'' ''password123'' fresh_world
       = ([SetError [], SetSuccess False, SetError ''Please enter a valid email address''],
          fresh_world) \<and>
     sent (snd (Register_handleSubmit P net ''nobody'' ''password123'' fresh_world)) = []"
proof (intro allI)
  fix P net
  have short: "length ''short'' < 8 \<or> CHR ''@'' \<notin> set ''a@x.com''"
    by simp
  have no_at: "length ''password123'' < 8 \<or> CHR ''@'' \<notin> set ''nobody''"
    by simp
  have a: "Register_handleSubmit P net ''a@x.com'' ''short'' fresh_world
       = ([SetError [], SetSuccess False, SetError ''Password must be at least 8 characters''],
          fresh_world)"
    by (simp add: Register_handleSubmit_def)
  have b: "Register_handleSubmit P net ''nobody'' ''password123'' fresh_world
       = ([SetError [], SetSuccess False, SetError ''Please enter a valid email address''],
          fresh_world)"
    by (simp add: Register_handleSubmit_def)
  have s: "sent fresh_world = []"
    by (simp add: fresh_world_def)
  from register_rejects_invalid_input [OF short, of P net fresh_world]
    register_rejects_invalid_input [OF no_at, of P net fresh_world] a b s
  show "length ''short'' < 8 \<and>
     Register_handleSubmit P net ''a@x.com'' ''short'' fresh_world
       = ([SetError [], SetSuccess False, SetError ''Password must be at least 8 characters''],
          fresh_world) \<and>
     sent (snd (Register_handleSubmit P net ''a@x.com'' ''short'' fresh_world)) = [] \<and>
     CHR ''@'' \<notin> set ''nobody'' \<and>
     Register_handleSubmit P net ''nobody'' ''password123'' fresh_world
       = ([SetError [], SetSuccess False, SetError ''Please enter a valid email address''],
          fresh_world) \<and>
     sent (snd (Register_handleSubmit P net ''nobody'' ''password123'' fresh_world)) = []"
    by simp
qed

section \<open>Updating a user's flags\<close>

lemma update_params_lookup:
  "map_of (update_params c) ''make_admin'' = map_option String_bool (make_admin c)"
  "map_of (update_params c) ''verify_email'' = map_option String_bool (verify_email c)"
  "map_of (update_params c) ''deactivate'' = map_option String_bool (deactivate c)"
  by (simp_all add: update_params_def split: option.splits)

lemma update_params_keys:
  "fst ` set (update_params c) \<subseteq> {''make_admin'', ''verify_email'', ''deactivate''}"
  by (auto simp: update_params_def split: option.splits)

lemma update_params_distinct: "distinct (map fst (update_params c))"
  by (simp add: update_params_def split: option.splits)

lemma adminUpdateUser_request_query:
  "query (adminUpdateUser_request ls userId c) = update_params c"
  by (simp add: adminUpdateUser_request_def)

lemma adminUpdateUser_sent:
  "sent (snd (adminUpdateUser P net userId c w))
     = sent w @ [adminUpdateUser_request (localStorage w) userId c]"
  by (simp add: adminUpdateUser_def fetch_def split: sum.splits)

lemma handleUpdateUser_sent:
  "sent (snd (handleUpdateUser P net formData (Some u) w))
     = sent w @ [adminUpdateUser_request (localStorage w) (id' u)
                   (handleUpdateUser_changes formData u)]"
proof -
  obtain r w' where a: "adminUpdateUser P net (id' u) (handleUpdateUser_changes formData u) w = (r, w')"
    by (cases "adminUpdateUser P net (id' u) (handleUpdateUser_changes formData u) w")
  then have "snd (handleUpdateUser P net formData (Some u) w) = w'"
    by (cases r) (simp_all add: handleUpdateUser_def)
  with a adminUpdateUser_sent [of P net "id' u" "handleUpdateUser_changes formData u" w]
  show ?thesis by simp
qed

lemma handleUpdateUser_changes_flags:
  "make_admin (handleUpdateUser_changes formData u)
     = (if is_admin formData = is_admin u then None else Some (is_admin formData))"
  "verify_email (handleUpdateUser_changes formData u)
     = (if email_verified formData = email_verified u then None
        else Some (email_verified formData))"
  "deactivate (handleUpdateUser_changes formData u)
     = (if is_active formData = is_active u then None else Some (\<not> is_active formData))"
  by (simp_all add: handleUpdateUser_changes_def)

lemma handleUpdateUser_none: "handleUpdateUser P net formData None w = ([], w)"
  by (simp add: handleUpdateUser_def)

text \<open>
  Claim C6: \<^verbatim>\<open>adminUpdateUser\<close> sends one request, whose query string holds
  \<^verbatim>\<open>make_admin\<close>, \<^verbatim>\<open>verify_email\<close> and \<^verbatim>\<open>deactivate\<close> exactly for the flags that
  \<^verbatim>\<open>changes\<close> holds, with their values, each once, and no other parameter. The request of the
  AdminUsers screen is the one for the changes it computes: a flag is in them exactly
  when the form's value differs from the selected user's, with the form's value, and
  \<^verbatim>\<open>deactivate\<close> with the negation of the form's \<^verbatim>\<open>is_active\<close>. With no user
  selected the screen does nothing.
\<close>

theorem admin_update_sends_supplied_flags:
  "sent (snd (adminUpdateUser P net userId c w))
     = sent w @ [adminUpdateUser_request (localStorage w) userId c] \<and>
   map_of (query (adminUpdateUser_request ls userId c)) ''make_admin''
     = map_option String_bool (make_admin c) \<and>
   map_of (query (adminUpdateUser_request ls userId c)) ''verify_email''
     = map_option String_bool (verify_email c) \<and>
   map_of (query (adminUpdateUser_request ls userId c)) ''deactivate''
     = map_option String_bool (deactivate c) \<and>
   fst ` set (query (adminUpdateUser_request ls userId c))
     \<subseteq> {''make_admin'', ''verify_email'', ''deactivate''} \<and>
   distinct (map fst (query (adminUpdateUser_request ls userId c))) \<and>
   sent (snd (handleUpdateUser P net formData (Some u) w))
     = sent w @ [adminUpdateUser_request (localStorage w) (id' u)
                   (handleUpdateUser_changes formData u)] \<and>
   make_admin (handleUpdateUser_changes formData u)
     = (if is_admin formData = is_admin u then None else Some (is_admin formData)) \<and>
   verify_email (handleUpdateUser_changes formData u)
     = (if email_verified formData = email_verified u then None
        else Some (email_verified formData)) \<and>
   deactivate (handleUpdateUser_changes formData u)
     = (if is_active formData = is_active u then None else Some (\<not> is_active formData)) \<and>
   handleUpdateUser P net formData None w = ([], w)"
  unfolding adminUpdateUser_request_query
  by (intro conjI adminUpdateUser_sent update_params_lookup update_params_keys
        update_params_distinct handleUpdateUser_sent handleUpdateUser_changes_flags handleUpdateUser_none)

section \<open>Logging in\<close>

lemma handleJsonResponse_ok:
  assumes "ok res" and "response_data res = Inr data"
  shows "handleJsonResponse P res = Inr data"
  using assms by (simp add: handleJsonResponse_def)

lemma login_success:
  assumes "net (login_request em pw) = Inr res"
    and "ok res"
    and "response_data res = Inr data"
    and "get_prop data ''access_token'' = Some (JString tok)"
  shows "login P net em pw w =
           (Inr (Some (JString tok), truthy_opt (get_prop (decodeJwt P tok) ''adm'')),
            w\<lparr>localStorage := (localStorage w)(TOKEN_KEY \<mapsto> tok, EMAIL_KEY \<mapsto> em),
              sent := sent w @ [login_request em pw]\<rparr>)"
proof -
  from assms(4) have nn: "data \<noteq> JNull"
    by auto
  have h: "handleJsonResponse P res = Inr data"
    using assms(2,3) by (rule handleJsonResponse_ok)
  show ?thesis
    using assms(1,4) nn h
    by (simp add: login_def fetch_def Let_def stored_string_def decodeJwt_any_def
          setToken_def setCurrentEmail_def)
qed

text \<open>
  Claim C4: when the login request is answered by an ok response whose JSON body
  holds the string \<^verbatim>\<open>access_token\<close>, \<^verbatim>\<open>login\<close> returns that token with \<^verbatim>\<open>adm\<close> the
  truthiness of the \<^verbatim>\<open>adm\<close> property of the decoded token, the token and the submitted
  email are then the stored ones, and the login screen (given a non-empty email and
  password) calls \<^verbatim>\<open>onLogin\<close> with the email and the role \<^verbatim>\<open>admin\<close> exactly when
  \<^verbatim>\<open>adm\<close> is true, \<^verbatim>\<open>user\<close> otherwise.
\<close>

theorem login_stores_credential:
  assumes "net (login_request em pw) = Inr res"
    and "ok res"
    and "response_data res = Inr data"
    and "get_prop data ''access_token'' = Some (JString tok)"
    and "em \<noteq> []" and "pw \<noteq> []"
  shows "fst (login P net em pw w)
           = Inr (Some (JString tok), truthy_opt (get_prop (decodeJwt P tok) ''adm'')) \<and>
         getToken (localStorage (snd (login P net em pw w))) = Some tok \<and>
         getCurrentEmail (localStorage (snd (login P net em pw w))) = Some em \<and>
         fst (Login_handleSubmit P net em pw w)
           = [SetError [], SetLoading True,
              OnLogin em (if truthy_opt (get_prop (decodeJwt P tok) ''adm'')
                          then ''admin'' else ''user''),
              SetLoading False]"
proof -
  have l: "login P net em pw w =
           (Inr (Some (JString tok), truthy_opt (get_prop (decodeJwt P tok) ''adm'')),
            w\<lparr>localStorage := (localStorage w)(TOKEN_KEY \<mapsto> tok, EMAIL_KEY \<mapsto> em),
              sent := sent w @ [login_request em pw]\<rparr>)"
    using assms(1-4) by (rule login_success)
  have a: "fst (login P net em pw w)
             = Inr (Some (JString tok), truthy_opt (get_prop (decodeJwt P tok) ''adm''))"
    by (simp add: l)
  have b: "getToken (localStorage (snd (login P net em pw w))) = Some tok"
    by (simp add: l getToken_def TOKEN_KEY_def EMAIL_KEY_def)
  have c: "getCurrentEmail (localStorage (snd (login P net em pw w))) = Some em"
    by (simp add: l getCurrentEmail_def)
  have d: "fst (Login_handleSubmit P net em pw w)
             = [SetError [], SetLoading True,
                OnLogin em (if truthy_opt (get_prop (decodeJwt P tok) ''adm'')
                            then ''admin'' else ''user''),
                SetLoading False]"
    using assms(5,6) by (simp add: Login_handleSubmit_def l)
  from a b c d show ?thesis by blast
qed

lemma login_ok_response_data:
  "response_data login_ok_response
     = Inr (JObject [(''access_token'', JString ''h.eyJzdWIiOiJhQHguY29tIiwiYWRtIjp0cnVlfQ.s''),
                     (''token_type'', JString ''bearer''),
                     (''expires_in'', JNumber 3600)])"
  by (simp add: response_data_def isJson_def login_ok_response_def)

theorem login_stores_credential_witness:
  "\<forall>le str.
     fst (login (browser le str) (\<lambda>req. Inr login_ok_response) ''a@x.com'' ''password123'' fresh_world)
       = Inr (Some (JString ''h.eyJzdWIiOiJhQHguY29tIiwiYWRtIjp0cnVlfQ.s''), True) \<and>
     getToken (localStorage (snd (login (browser le str) (\<lambda>req. Inr login_ok_response)
                 ''a@x.com'' ''password123'' fresh_world)))
       = Some ''h.eyJzdWIiOiJhQHguY29tIiwiYWRtIjp0cnVlfQ.s'' \<and>
     getCurrentEmail (localStorage (snd (login (browser le str) (\<lambda>req. Inr login_ok_response)
                 ''a@x.com'' ''password123'' fresh_world)))
       = Some ''a@x.com'' \<and>
     fst (Login_handleSubmit (browser le str) (\<lambda>req. Inr login_ok_response)
            ''a@x.com'' ''password123'' fresh_world)
       = [SetError [], SetLoading True, OnLogin ''a@x.com'' ''admin'', SetLoading False]"
proof (intro allI)
  fix le str
  let ?net = "(\<lambda>req. Inr login_ok_response) :: network"
  let ?tok = "''h.eyJzdWIiOiJhQHguY29tIiwiYWRtIjp0cnVlfQ.s''"
  have h1: "?net (login_request ''a@x.com'' ''password123'') = Inr login_ok_response"
    by simp
  have h2: "ok login_ok_response"
    by (simp add: ok_def login_ok_response_def)
  have h4: "get_prop (JObject [(''access_token'', JString ?tok),
                               (''token_type'', JString ''bearer''),
                               (''expires_in'', JNumber 3600)]) ''access_token''
              = Some (JString ?tok)"
    by simp
  have h5: "''a@x.com'' \<noteq> []" and h6: "''password123'' \<noteq> []"
    by simp_all
  have adm: "truthy_opt (get_prop (decodeJwt (browser le str) ?tok) ''adm'')"
    by (simp add: decode_sub_adm)
  from login_stores_credential [OF h1 h2 login_ok_response_data h4 h5 h6,
      of "browser le str" fresh_world] adm
  show "fst (login (browser le str) ?net ''a@x.com'' ''password123'' fresh_world)
       = Inr (Some (JString ?tok), True) \<and>
     getToken (localStorage (snd (login (browser le str) ?net
                 ''a@x.com'' ''password123'' fresh_world)))
       = Some ?tok \<and>
     getCurrentEmail (localStorage (snd (login (browser le str) ?net
                 ''a@x.com'' ''password123'' fresh_world)))
       = Some ''a@x.com'' \<and>
     fst (Login_handleSubmit (browser le str) ?net
            ''a@x.com'' ''password123'' fresh_world)
       = [SetError [], SetLoading True, OnLogin ''a@x.com'' ''admin'', SetLoading False]"
    by simp
qed

section \<open>Errors of the API client\<close>

lemma handleJsonResponse_rejects:
  assumes "response_data res = Inl e"
  shows "handleJsonResponse P res = Inl e"
  using assms by (simp add: handleJsonResponse_def)

lemma handleJsonResponse_not_ok:
  assumes "\<not> ok res" and "response_data res = Inr data"
  shows "\<exists>m. handleJsonResponse P res = Inl (HttpError m (status res) data) \<and>
             (\<forall>d. get_prop data ''detail'' = Some d \<and> truthy d \<longrightarrow> m = js_String P d) \<and>
             (\<not> truthy_opt (get_prop data ''detail'') \<and> statusText res \<noteq> []
                \<longrightarrow> m = statusText res) \<and>
             (\<not> truthy_opt (get_prop data ''detail'') \<and> statusText res = []
                \<longrightarrow> m = ''Request failed'')"
  using assms
  by (cases "get_prop data ''detail''") (auto simp: handleJsonResponse_def)

text \<open>
  Claim C8 as it is stated fails at two non-ok responses. A 500 whose body is
  announced as JSON and is empty: \<^verbatim>\<open>res.json()\<close> rejects, and that rejection is what
  \<^verbatim>\<open>handleJsonResponse\<close> throws, an error with no \<^verbatim>\<open>status\<close> field. A 400 whose body
  is \<^verbatim>\<open>{"detail":""}\<close>: the detail is present, and the message is the status text.
\<close>

theorem handleJsonResponse_counterexample:
  "\<forall>P. \<not> ok \<lparr>status = 500, statusText = ''Internal Server Error'',
                content_type = Some ''application/json'',
                json_body = Inl (PlatformError ''Unexpected end of JSON input'')\<rparr> \<and>
       handleJsonResponse P
          \<lparr>status = 500, statusText = ''Internal Server Error'',
           content_type = Some ''application/json'',
           json_body = Inl (PlatformError ''Unexpected end of JSON input'')\<rparr>
         = Inl (PlatformError ''Unexpected end of JSON input'') \<and>
       err_status (PlatformError ''Unexpected end of JSON input'') \<noteq> Some 500 \<and>
       \<not> ok \<lparr>status = 400, statusText = ''Bad Request'',
                content_type = Some ''application/json'',
                json_body = Inr (JObject [(''detail'', JString [])])\<rparr> \<and>
       handleJsonResponse P
          \<lparr>status = 400, statusText = ''Bad Request'',
           content_type = Some ''application/json'',
           json_body = Inr (JObject [(''detail'', JString [])])\<rparr>
         = Inl (HttpError ''Bad Request'' 400 (JObject [(''detail'', JString [])]))"
  by (simp add: handleJsonResponse_def response_data_def isJson_def ok_def)

text \<open>
  Claim C8, amended: for a non-ok response, a rejection of \<^verbatim>\<open>res.json()\<close> is thrown
  as it is; otherwise \<^verbatim>\<open>handleJsonResponse\<close> throws an error whose \<^verbatim>\<open>status\<close> is
  the HTTP status, whose \<^verbatim>\<open>data\<close> is the body read (\<^verbatim>\<open>null\<close> when the content type
  is not JSON), and whose message is the string of the body's \<^verbatim>\<open>detail\<close> when that is
  truthy (the detail itself when it is a non-empty string), otherwise the status
  text when that is not empty, otherwise \<^verbatim>\<open>Request failed\<close>.
\<close>

theorem handleJsonResponse_error:
  assumes "\<not> ok res"
  shows "(\<forall>e. response_data res = Inl e \<longrightarrow> handleJsonResponse P res = Inl e) \<and>
         (\<forall>data. response_data res = Inr data \<longrightarrow>
            (\<exists>m. handleJsonResponse P res = Inl (HttpError m (status res) data) \<and>
                 err_status (HttpError m (status res) data) = Some (status res) \<and>
                 err_message (HttpError m (status res) data) = m \<and>
                 (\<forall>d. get_prop data ''detail'' = Some d \<and> truthy d \<longrightarrow> m = js_String P d) \<and>
                 (\<forall>s. get_prop data ''detail'' = Some (JString s) \<and> s \<noteq> [] \<longrightarrow> m = s) \<and>
                 (\<not> truthy_opt (get_prop data ''detail'') \<and> statusText res \<noteq> []
                    \<longrightarrow> m = statusText res) \<and>
                 (\<not> truthy_opt (get_prop data ''detail'') \<and> statusText res = []
                    \<longrightarrow> m = ''Request failed'')))"
proof (intro conjI allI impI)
  fix e
  assume "response_data res = Inl e"
  then show "handleJsonResponse P res = Inl e"
    by (rule handleJsonResponse_rejects)
next
  fix data
  assume "response_data res = Inr data"
  with assms obtain m where m: "handleJsonResponse P res = Inl (HttpError m (status res) data)"
    and d: "\<forall>d. get_prop data ''detail'' = Some d \<and> truthy d \<longrightarrow> m = js_String P d"
    and t: "\<not> truthy_opt (get_prop data ''detail'') \<and> statusText res \<noteq> [] \<longrightarrow> m = statusText res"
    and f: "\<not> truthy_opt (get_prop data ''detail'') \<and> statusText res = [] \<longrightarrow> m = ''Request failed''"
    using handleJsonResponse_not_ok [of res data P] by blast
  from d have s: "\<forall>s. get_prop data ''detail'' = Some (JString s) \<and> s \<noteq> [] \<longrightarrow> m = s"
    by auto
  from m d s t f
  show "\<exists>m. handleJsonResponse P res = Inl (HttpError m (status res) data) \<and>
             err_status (HttpError m (status res) data) = Some (status res) \<and>
             err_message (HttpError m (status res) data) = m \<and>
             (\<forall>d. get_prop data ''detail'' = Some d \<and> truthy d \<longrightarrow> m = js_String P d) \<and>
             (\<forall>s. get_prop data ''detail'' = Some (JString s) \<and> s \<noteq> [] \<longrightarrow> m = s) \<and>
             (\<not> truthy_opt (get_prop data ''detail'') \<and> statusText res \<noteq> []
                \<longrightarrow> m = statusText res) \<and>
             (\<not> truthy_opt (get_prop data ''detail'') \<and> statusText res = []
                \<longrightarrow> m = ''Request failed'')"
    by simp
qed

lemma unverified_response_data:
  "response_data unverified_response = Inr (JObject [(''detail'', JString ''Email not verified'')])"
  by (simp add: response_data_def isJson_def unverified_response_def)

lemma unverified_response_not_ok: "\<not> ok unverified_response"
  by (simp add: ok_def unverified_response_def)

theorem handleJsonResponse_error_witness:
  "\<forall>P. \<not> ok unverified_response \<and>
       handleJsonResponse P unverified_response
         = Inl (HttpError ''Email not verified'' 403
                  (JObject [(''detail'', JString ''Email not verified'')]))"
proof (intro allI)
  fix P
  let ?data = "JObject [(''detail'', JString ''Email not verified'')]"
  from handleJsonResponse_error [OF unverified_response_not_ok, of P] unverified_response_data
  obtain m where m: "handleJsonResponse P unverified_response
                       = Inl (HttpError m (status unverified_response) ?data)"
    and s: "\<forall>s. get_prop ?data ''detail'' = Some (JString s) \<and> s \<noteq> [] \<longrightarrow> m = s"
    by blast
  from s have "m = ''Email not verified''"
    by simp
  with m unverified_response_not_ok
  show "\<not> ok unverified_response \<and>
       handleJsonResponse P unverified_response
         = Inl (HttpError ''Email not verified'' 403 ?data)"
    by (simp add: unverified_response_def)
qed

section \<open>Logging in before verification\<close>

lemma login_failure:
  assumes "net (login_request em pw) = Inr res"
    and "handleJsonResponse P res = Inl e"
  shows "login P net em pw w = (Inl e, w\<lparr>sent := sent w @ [login_request em pw]\<rparr>)"
  using assms by (simp add: login_def fetch_def)

text \<open>
  The login screen alone: a response with status 403 whose body can be read makes it
  show \<^verbatim>\<open>Email not verified\<close> and call \<^verbatim>\<open>onRequireVerification\<close> with the email
  that was submitted; nothing is stored.
\<close>

lemma Login_handleSubmit_403:
  assumes "net (login_request em pw) = Inr res"
    and "status res = 403"
    and "response_data res = Inr data"
    and "em \<noteq> []" and "pw \<noteq> []"
  shows "Login_handleSubmit P net em pw w
           = ([SetError [], SetLoading True, SetError ''Email not verified'',
               OnRequireVerification em, SetLoading False],
              w\<lparr>sent := sent w @ [login_request em pw]\<rparr>)"
proof -
  from assms(2) have "\<not> ok res"
    by (simp add: ok_def)
  with assms(3) obtain m where "handleJsonResponse P res = Inl (HttpError m (status res) data)"
    using handleJsonResponse_not_ok by blast
  with assms(1) have "login P net em pw w
      = (Inl (HttpError m (status res) data), w\<lparr>sent := sent w @ [login_request em pw]\<rparr>)"
    by (rule login_failure)
  with assms(2,4,5) show ?thesis
    by (simp add: Login_handleSubmit_def)
qed

lemma backend_login_unverified:
  assumes "find (\<lambda>u. lower (email u) = lower em) (users b) = Some u"
    and "\<not> email_verified u"
  shows "backend_login verify em pw b = Inl Unverified"
  using assms by (simp add: backend_login_def)

text \<open>
  Claim C3: for an account that is registered and not verified, the backend's login
  fails with Unverified, whose status is 403, and not with bad credentials, whose
  status is 400; and when the response to the login request carries the status of
  that failure (and its body can be read), the login screen shows
  \<^verbatim>\<open>Email not verified\<close> and calls \<^verbatim>\<open>onRequireVerification\<close> with the attempted
  email, instead of reporting invalid credentials; nothing is stored.
\<close>

theorem unverified_login_routes_to_verification:
  assumes "find (\<lambda>u. lower (email u) = lower em) (users b) = Some u"
    and "\<not> email_verified u"
    and "net (login_request em pw) = Inr res"
    and "\<forall>f. backend_login verify em pw b = Inl f \<longrightarrow> status res = http_status f"
    and "response_data res = Inr data"
    and "em \<noteq> []" and "pw \<noteq> []"
  shows "backend_login verify em pw b = Inl Unverified \<and>
         backend_login verify em pw b \<noteq> Inl BadCredentials \<and>
         status res = 403 \<and>
         http_status BadCredentials \<noteq> 403 \<and>
         fst (Login_handleSubmit P net em pw w)
           = [SetError [], SetLoading True, SetError ''Email not verified'',
              OnRequireVerification em, SetLoading False] \<and>
         localStorage (snd (Login_handleSubmit P net em pw w)) = localStorage w"
proof -
  have u: "backend_login verify em pw b = Inl Unverified"
    using assms(1,2) by (rule backend_login_unverified)
  with assms(4) have s: "status res = 403"
    by simp
  have h: "Login_handleSubmit P net em pw w
           = ([SetError [], SetLoading True, SetError ''Email not verified'',
               OnRequireVerification em, SetLoading False],
              w\<lparr>sent := sent w @ [login_request em pw]\<rparr>)"
    using assms(3) s assms(5,6,7) by (rule Login_handleSubmit_403)
  from u s h show ?thesis
    by simp
qed

lemma sample_user_found:
  "find (\<lambda>u. lower (email u) = lower ''A@x.com'') (users sample_backend) = Some sample_user"
  by (simp add: sample_backend_def sample_user_def lower_def)

theorem unverified_login_routes_to_verification_witness:
  "\<forall>P verify.
     backend_login verify ''A@x.com'' ''password123'' sample_backend = Inl Unverified \<and>
     status unverified_response = 403 \<and>
     fst (Login_handleSubmit P (\<lambda>req. Inr unverified_response) ''A@x.com'' ''password123'' fresh_world)
       = [SetError [], SetLoading True, SetError ''Email not verified'',
          OnRequireVerification ''A@x.com'', SetLoading False] \<and>
     localStorage (snd (Login_handleSubmit P (\<lambda>req. Inr unverified_response)
                          ''A@x.com'' ''password123'' fresh_world)) = Map.empty"
proof (intro allI)
  fix P and verify :: "string \<Rightarrow> string \<Rightarrow> bool"
  let ?net = "(\<lambda>req. Inr unverified_response) :: network"
  have h2: "\<not> email_verified sample_user"
    by (simp add: sample_user_def)
  have h3: "?net (login_request ''A@x.com'' ''password123'') = Inr unverified_response"
    by simp
  have h4: "\<forall>f. backend_login verify ''A@x.com'' ''password123'' sample_backend = Inl f
                \<longrightarrow> status unverified_response = http_status f"
    using backend_login_unverified [OF sample_user_found h2, of verify "''password123''"]
    by (simp add: unverified_response_def)
  have h6: "''A@x.com'' \<noteq> []" and h7: "''password123'' \<noteq> []"
    by simp_all
  from unverified_login_routes_to_verification
         [OF sample_user_found h2 h3 h4 unverified_response_data h6 h7, of P fresh_world]
  show "backend_login verify ''A@x.com'' ''password123'' sample_backend = Inl Unverified \<and>
     status unverified_response = 403 \<and>
     fst (Login_handleSubmit P ?net ''A@x.com'' ''password123'' fresh_world)
       = [SetError [], SetLoading True, SetError ''Email not verified'',
          OnRequireVerification ''A@x.com'', SetLoading False] \<and>
     localStorage (snd (Login_handleSubmit P ?net ''A@x.com'' ''password123'' fresh_world))
       = Map.empty"
    by (simp add: fresh_world_def)
qed

section \<open>Verification tokens\<close>

lemma consume_effect:
  assumes "consume t b = Inr (uid, b')"
  shows "\<exists>e. tokens b t = Some e \<and> user_id e = uid \<and> \<not> consumed e \<and>
             tokens b' t = Some (e\<lparr>consumed := True\<rparr>) \<and>
             users b' = mark_verified uid (users b)"
proof (cases "tokens b t")
  case None
  then have "consume t b = Inl NotFound"
    by (simp add: consume_def)
  with assms show ?thesis
    by simp
next
  case (Some e)
  show ?thesis
  proof (cases "consumed e")
    case True
    with Some have "consume t b = Inl NotFound"
      by (simp add: consume_def)
    with assms show ?thesis
      by simp
  next
    case False
    with Some assms have uid: "user_id e = uid"
      and eq: "b\<lparr>users := mark_verified (user_id e) (users b),
                 tokens := (tokens b)(t \<mapsto> e\<lparr>consumed := True\<rparr>)\<rparr> = b'"
      by (auto simp add: consume_def)
    have "tokens b' t = Some (e\<lparr>consumed := True\<rparr>)"
      and "users b' = mark_verified (user_id e) (users b)"
      unfolding eq [symmetric] by simp_all
    with Some False uid show ?thesis
      by simp
  qed
qed

lemma consume_spent:
  assumes "tokens b t = Some e" and "consumed e"
  shows "consume t b = Inl NotFound"
  using assms by (simp add: consume_def)

lemma mark_verified_marks:
  assumes "u \<in> set (mark_verified uid us)" and "id' u = uid"
  shows "email_verified u"
proof -
  from assms(1)
  have "u \<in> (\<lambda>v. if id' v = uid then v\<lparr>email_verified := True\<rparr> else v) ` set us"
    by (simp add: mark_verified_def)
  then obtain v where v: "v \<in> set us"
    and u: "u = (if id' v = uid then v\<lparr>email_verified := True\<rparr> else v)"
    by (rule imageE)
  show ?thesis
  proof (cases "id' v = uid")
    case True
    with u show ?thesis by simp
  next
    case False
    with u assms(2) show ?thesis by simp
  qed
qed

text \<open>A consumed token stays in the table as it is, whatever call comes next.\<close>

lemma issue_keeps_entry:
  assumes "tokens b t = Some e"
  shows "tokens (token_step gen (Issue uid) b) t = Some e"
proof (cases "tokens b (gen b uid)")
  case None
  with assms have "gen b uid \<noteq> t"
    by auto
  with None assms show ?thesis
    by (simp add: issue_def Let_def)
next
  case (Some e')
  with assms show ?thesis
    by (simp add: issue_def Let_def)
qed

lemma consume_keeps_spent:
  assumes "tokens b t = Some e" and "consumed e"
  shows "tokens (token_step gen (Consume t') b) t = Some e"
proof (cases "t' = t")
  case True
  with assms have "consume t' b = Inl NotFound"
    by (simp add: consume_spent)
  with assms(1) show ?thesis
    by simp
next
  case False
  show ?thesis
  proof (cases "consume t' b")
    case (Inl f)
    with assms(1) show ?thesis
      by simp
  next
    case (Inr r)
    obtain uid b' where r: "r = (uid, b')"
      by (cases r)
    with Inr have c: "consume t' b = Inr (uid, b')"
      by simp
    then obtain e' where "tokens b t' = Some e'" and "\<not> consumed e'"
      using consume_effect by blast
    with c have "b' = b\<lparr>users := mark_verified (user_id e') (users b),
                         tokens := (tokens b)(t' \<mapsto> e'\<lparr>consumed := True\<rparr>)\<rparr>"
      by (auto simp add: consume_def)
    with False assms(1) have "tokens b' t = Some e"
      by simp
    with c show ?thesis
      by simp
  qed
qed

lemma token_step_keeps_spent:
  assumes "tokens b t = Some e" and "consumed e"
  shows "tokens (token_step gen c b) t = Some e"
proof (cases c)
  case (Issue uid)
  with assms(1) show ?thesis
    by (simp only: issue_keeps_entry)
next
  case (Consume t')
  with assms show ?thesis
    by (simp only: consume_keeps_spent)
qed

lemma token_run_keeps_spent:
  assumes "tokens b t = Some e" and "consumed e"
  shows "tokens (token_run gen cs b) t = Some e"
  using assms(1)
proof (induction cs arbitrary: b)
  case Nil
  then show ?case by simp
next
  case (Cons c cs)
  from Cons.prems assms(2) have "tokens (token_step gen c b) t = Some e"
    by (rule token_step_keeps_spent)
  then show ?case
    by (simp add: Cons.IH)
qed

text \<open>
  Claim C2: when \<^verbatim>\<open>consume\<close> succeeds on a token, the user it returns is the
  token's owner and that user's \<^verbatim>\<open>email_verified\<close> is set; from then on \<^verbatim>\<open>consume\<close>
  on that token fails with NotFound, at once and after any further calls to the
  service, whatever they issue or consume and whatever the generator hands out.
\<close>

theorem consume_single_use:
  assumes "consume t b = Inr (uid, b')"
  shows "(\<exists>e. tokens b t = Some e \<and> user_id e = uid \<and> \<not> consumed e) \<and>
         users b' = mark_verified uid (users b) \<and>
         (\<forall>u \<in> set (users b'). id' u = uid \<longrightarrow> email_verified u) \<and>
         consume t b' = Inl NotFound \<and>
         consume t (token_run gen cs b') = Inl NotFound"
proof -
  from assms obtain e where e: "tokens b t = Some e" "user_id e = uid" "\<not> consumed e"
    and s: "tokens b' t = Some (e\<lparr>consumed := True\<rparr>)"
    and us: "users b' = mark_verified uid (users b)"
    using consume_effect by blast
  have sp: "consumed (e\<lparr>consumed := True\<rparr>)"
    by simp
  from s sp have "tokens (token_run gen cs b') t = Some (e\<lparr>consumed := True\<rparr>)"
    by (rule token_run_keeps_spent)
  then have a: "consume t (token_run gen cs b') = Inl NotFound"
    using sp by (rule consume_spent)
  from s sp have b: "consume t b' = Inl NotFound"
    by (rule consume_spent)
  have c: "\<forall>u \<in> set (users b'). id' u = uid \<longrightarrow> email_verified u"
    unfolding us using mark_verified_marks by blast
  from e have d: "\<exists>e. tokens b t = Some e \<and> user_id e = uid \<and> \<not> consumed e"
    by blast
  from d us c b a show ?thesis
    by (intro conjI)
qed

lemma sample_issue_consume:
  "consume ''t1'' (token_run sample_generator [Issue 1] sample_backend)
     = Inr (1, token_run sample_generator [Issue 1, Consume ''t1''] sample_backend)"
  by (simp add: issue_def consume_def Let_def sample_generator_def sample_backend_def)

theorem consume_single_use_witness:
  "tokens sample_backend = Map.empty \<and>
   consume ''t1'' (token_run sample_generator [Issue 1] sample_backend)
     = Inr (1, token_run sample_generator [Issue 1, Consume ''t1''] sample_backend) \<and>
   consume ''t1''
     (token_run sample_generator [Consume ''t1'', Issue 2, Consume ''t2'', Issue 1, Consume ''t1'']
        (token_run sample_generator [Issue 1, Consume ''t1''] sample_backend))
     = Inl NotFound \<and>
   map email_verified (users sample_backend) = [False] \<and>
   map email_verified (users (token_run sample_generator [Issue 1, Consume ''t1''] sample_backend))
     = [True]"
proof -
  have e: "tokens sample_backend = Map.empty"
    by (simp add: sample_backend_def)
  have a: "consume ''t1''
     (token_run sample_generator [Consume ''t1'', Issue 2, Consume ''t2'', Issue 1, Consume ''t1'']
        (token_run sample_generator [Issue 1, Consume ''t1''] sample_backend))
     = Inl NotFound"
    using consume_single_use [OF sample_issue_consume,
        of sample_generator "[Consume ''t1'', Issue 2, Consume ''t2'', Issue 1, Consume ''t1'']"]
    by blast
  have u: "map email_verified (users sample_backend) = [False]"
    by (simp add: sample_backend_def sample_user_def)
  have v: "map email_verified
             (users (token_run sample_generator [Issue 1, Consume ''t1''] sample_backend)) = [True]"
    by (simp add: issue_def consume_def Let_def sample_generator_def sample_backend_def
          sample_user_def mark_verified_def)
  from e sample_issue_consume a u v show ?thesis
    by (intro conjI)
qed

end
